theory Spec2Isabelle
  imports Main
begin

section \<open>JavaScript values\<close>

text \<open>
  The resolver of \<^verbatim>\<open>require-resolver.ts\<close> hands values of type \<^verbatim>\<open>unknown\<close> to
  untrusted JavaScript, and its wrappers take parameters of type \<^verbatim>\<open>any\<close>, so the
  embedding works over a datatype of JavaScript values.

  An object is the list of its own enumerable properties in insertion order; these are
  the properties that object spread copies. A function of the host runtime is
  \<open>JFun i ps\<close>: \<open>i\<close> is its identity and \<open>ps\<close> its own enumerable properties. The four
  arrow functions that \<^verbatim>\<open>createSecureChildProcessWrapper\<close> creates are closures over
  the variable \<^verbatim>\<open>childProcess\<close>; a closure is represented by the operation it was
  written for together with the captured value, \<open>JWrapped op childProcess\<close>.
  Numbers are integers: the code only ever observes whether a number is falsy.
\<close>

datatype wrapped_op = Spawn | Exec | ExecFile | Fork

datatype jsval =
    JUndefined
  | JNull
  | JBool bool
  | JNum int
  | JStr string
  | JArr "jsval list"
  | JObj "(string \<times> jsval) list"
  | JFun nat "(string \<times> jsval) list"
  | JWrapped wrapped_op jsval

type_synonym props = "(string \<times> jsval) list"

text \<open>The truthiness test behind \<^verbatim>\<open>!env\<close>.\<close>

fun truthy :: "jsval \<Rightarrow> bool" where
  "truthy JUndefined = False"
| "truthy JNull = False"
| "truthy (JBool b) = b"
| "truthy (JNum n) = (n \<noteq> 0)"
| "truthy (JStr s) = (s \<noteq> [])"
| "truthy (JArr xs) = True"
| "truthy (JObj ps) = True"
| "truthy (JFun i ps) = True"
| "truthy (JWrapped op cp) = True"

text \<open>Array and string indices as property keys: the decimal numeral of the index.\<close>

definition digit_char :: "nat \<Rightarrow> char" where
  "digit_char d = ''0123456789'' ! d"

fun index_key :: "nat \<Rightarrow> string" where
  "index_key n =
     (if n < 10 then [digit_char n] else index_key (n div 10) @ [digit_char (n mod 10)])"

declare index_key.simps [simp del]

text \<open>
  The properties that \<^verbatim>\<open>{ ...v }\<close> copies: the own enumerable properties of an object
  or function, the indexed elements of an array or string, and nothing for
  \<^verbatim>\<open>undefined\<close>, \<^verbatim>\<open>null\<close>, booleans and numbers.
\<close>

fun own_props :: "jsval \<Rightarrow> props" where
  "own_props (JObj ps) = ps"
| "own_props (JFun i ps) = ps"
| "own_props (JArr xs) = zip (map index_key [0..<length xs]) xs"
| "own_props (JStr s) = zip (map index_key [0..<length s]) (map (\<lambda>c. JStr [c]) s)"
| "own_props JUndefined = []"
| "own_props JNull = []"
| "own_props (JBool b) = []"
| "own_props (JNum n) = []"
| "own_props (JWrapped op cp) = []"

text \<open>
  Property read \<^verbatim>\<open>v?.k\<close> for a key that no prototype defines (\<^verbatim>\<open>env\<close>, and the
  member names of a module): the own property, or \<^verbatim>\<open>undefined\<close>.
\<close>

definition get_prop :: "jsval \<Rightarrow> string \<Rightarrow> jsval" where
  "get_prop v k = (case map_of (own_props v) k of None \<Rightarrow> JUndefined | Some x \<Rightarrow> x)"

text \<open>\<^verbatim>\<open>delete o[k]\<close> and the property definition \<^verbatim>\<open>k: v\<close> of an object literal.\<close>

definition delete_key :: "string \<Rightarrow> props \<Rightarrow> props" where
  "delete_key k ps = filter (\<lambda>p. fst p \<noteq> k) ps"

fun set_prop :: "string \<Rightarrow> jsval \<Rightarrow> props \<Rightarrow> props" where
  "set_prop k v [] = [(k, v)]"
| "set_prop k v (p # ps) = (if fst p = k then (k, v) # ps else p # set_prop k v ps)"

section \<open>The subprocess credential filter\<close>

text \<open>
  \<^verbatim>\<open>const SENSITIVE_ENV_VARS = ['ANTHROPIC_API_KEY', 'N8N_RUNNERS_GRANT_TOKEN',
  'N8N_RUNNERS_AUTH_TOKEN'];\<close>
\<close>

definition SENSITIVE_ENV_VARS :: "string list" where
  "SENSITIVE_ENV_VARS =
     [''ANTHROPIC_API_KEY'', ''N8N_RUNNERS_GRANT_TOKEN'', ''N8N_RUNNERS_AUTH_TOKEN'']"

text \<open>
  \<^verbatim>\<open>stripSensitiveEnvVars\<close>. The global \<^verbatim>\<open>process.env\<close> is the explicit parameter
  \<open>process_env\<close>. Both branches copy with a spread and then delete each sensitive key
  from the copy.
\<close>

definition stripSensitiveEnvVars :: "props \<Rightarrow> jsval \<Rightarrow> jsval" where
  "stripSensitiveEnvVars process_env env =
     (if \<not> truthy env then
        (let cleaned = process_env in JObj (fold delete_key SENSITIVE_ENV_VARS cleaned))
      else
        (let cleaned = own_props env in JObj (fold delete_key SENSITIVE_ENV_VARS cleaned)))"

text \<open>
  Each wrapper builds
  \<^verbatim>\<open>const secureOptions = { ...options, env: stripSensitiveEnvVars(options?.env) }\<close>
  and ends in a call of the raw operation of the captured facility. The call that a
  wrapper delegates to is a value: the callee and the argument list. The wrapper returns
  whatever that call returns.
\<close>

definition secureOptions :: "props \<Rightarrow> jsval \<Rightarrow> jsval" where
  "secureOptions process_env options =
     JObj (set_prop ''env'' (stripSensitiveEnvVars process_env (get_prop options ''env''))
            (own_props options))"

datatype raw_call = RawCall (callee: jsval) (call_args: "jsval list")

definition spawn :: "props \<Rightarrow> jsval \<Rightarrow> jsval \<Rightarrow> jsval \<Rightarrow> jsval \<Rightarrow> raw_call" where
  "spawn process_env childProcess command args options =
     RawCall (get_prop childProcess ''spawn'')
       [command, args, secureOptions process_env options]"

definition exec :: "props \<Rightarrow> jsval \<Rightarrow> jsval \<Rightarrow> jsval \<Rightarrow> jsval \<Rightarrow> raw_call" where
  "exec process_env childProcess command options callback =
     RawCall (get_prop childProcess ''exec'')
       [command, secureOptions process_env options, callback]"

definition execFile ::
  "props \<Rightarrow> jsval \<Rightarrow> jsval \<Rightarrow> jsval \<Rightarrow> jsval \<Rightarrow> jsval \<Rightarrow> raw_call" where
  "execFile process_env childProcess file args options callback =
     RawCall (get_prop childProcess ''execFile'')
       [file, args, secureOptions process_env options, callback]"

definition fork :: "props \<Rightarrow> jsval \<Rightarrow> jsval \<Rightarrow> jsval \<Rightarrow> jsval \<Rightarrow> raw_call" where
  "fork process_env childProcess modulePath args options =
     RawCall (get_prop childProcess ''fork'')
       [modulePath, args, secureOptions process_env options]"

text \<open>
  \<^verbatim>\<open>return { ...childProcess, spawn: ..., exec: ..., execFile: ..., fork: ... }\<close>
\<close>

definition createSecureChildProcessWrapper :: "jsval \<Rightarrow> jsval" where
  "createSecureChildProcessWrapper childProcess =
     JObj (set_prop ''fork'' (JWrapped Fork childProcess)
          (set_prop ''execFile'' (JWrapped ExecFile childProcess)
          (set_prop ''exec'' (JWrapped Exec childProcess)
          (set_prop ''spawn'' (JWrapped Spawn childProcess)
          (own_props childProcess)))))"

text \<open>
  Function application \<^verbatim>\<open>f(...as)\<close> as the calling code performs it on a member of the
  returned handle. A missing argument is \<^verbatim>\<open>undefined\<close>, a surplus one is ignored. A
  closure of the filter runs its wrapper; any other value is called as it is, with the
  arguments as given.
\<close>

definition arg :: "jsval list \<Rightarrow> nat \<Rightarrow> jsval" where
  "arg as i = (if i < length as then as ! i else JUndefined)"

fun call_function :: "props \<Rightarrow> jsval \<Rightarrow> jsval list \<Rightarrow> raw_call" where
  "call_function process_env (JWrapped Spawn cp) as =
     spawn process_env cp (arg as 0) (arg as 1) (arg as 2)"
| "call_function process_env (JWrapped Exec cp) as =
     exec process_env cp (arg as 0) (arg as 1) (arg as 2)"
| "call_function process_env (JWrapped ExecFile cp) as =
     execFile process_env cp (arg as 0) (arg as 1) (arg as 2) (arg as 3)"
| "call_function process_env (JWrapped Fork cp) as =
     fork process_env cp (arg as 0) (arg as 1) (arg as 2)"
| "call_function process_env f as = RawCall f as"

definition call_member :: "props \<Rightarrow> jsval \<Rightarrow> string \<Rightarrow> jsval list \<Rightarrow> raw_call" where
  "call_member process_env handle name as =
     call_function process_env (get_prop handle name) as"

section \<open>The require resolver\<close>

text \<open>
  \<^verbatim>\<open>allowedBuiltInModules: Set<string> | '*'\<close> and
  \<^verbatim>\<open>allowedExternalModules: Set<string> | '*'\<close>.
\<close>

datatype allow_list = Wildcard | Names "string set"

record RequireResolverOpts =
  allowedBuiltInModules :: allow_list
  allowedExternalModules :: allow_list

text \<open>
  Modelled from the spec: the classes \<^verbatim>\<open>DisallowedModuleError\<close> and
  \<^verbatim>\<open>ExecutionError\<close> are imported from \<^verbatim>\<open>./errors/\<close>, which is not part of the
  sources at hand. The denial carries the offending name and the envelope carries the
  error it wraps. \<open>HostError\<close> stands for whatever the host's loader throws.
\<close>

datatype js_error =
    DisallowedModuleError string
  | ExecutionError js_error
  | HostError string

text \<open>
  What one call of the resolver does: the names it passed to \<^verbatim>\<open>require\<close>, in order,
  and the value it returned or the error it threw.
\<close>

record outcome =
  loads :: "string list"
  result :: "js_error + jsval"

definition checkIsAllowed :: "allow_list \<Rightarrow> string \<Rightarrow> bool" where
  "checkIsAllowed allowList moduleName =
     (case allowList of Wildcard \<Rightarrow> True | Names s \<Rightarrow> moduleName \<in> s)"

definition isAllowed :: "(string \<Rightarrow> bool) \<Rightarrow> RequireResolverOpts \<Rightarrow> string \<Rightarrow> bool" where
  "isAllowed isBuiltin opts request =
     (if isBuiltin request
      then checkIsAllowed (allowedBuiltInModules opts) request
      else checkIsAllowed (allowedExternalModules opts) request)"

text \<open>
  \<^verbatim>\<open>createRequireResolver\<close>. The host's \<^verbatim>\<open>isBuiltin\<close> and \<^verbatim>\<open>require\<close> are
  parameters; \<^verbatim>\<open>require\<close> returns the module or the error it throws.
\<close>

definition createRequireResolver ::
  "(string \<Rightarrow> bool) \<Rightarrow> (string \<Rightarrow> js_error + jsval) \<Rightarrow> RequireResolverOpts \<Rightarrow> string \<Rightarrow> outcome"
where
  "createRequireResolver isBuiltin require opts request =
     (if \<not> isAllowed isBuiltin opts request then
        (let error = DisallowedModuleError request
         in \<lparr>loads = [], result = Inl (ExecutionError error)\<rparr>)
      else
        (case require request of
           Inl thrown \<Rightarrow> \<lparr>loads = [request], result = Inl thrown\<rparr>
         | Inr module \<Rightarrow>
             if request = ''child_process''
             then \<lparr>loads = [request], result = Inr (createSecureChildProcessWrapper module)\<rparr>
             else \<lparr>loads = [request], result = Inr module\<rparr>))"

section \<open>Sanitization over a store\<close>

text \<open>
  Whether \<^verbatim>\<open>stripSensitiveEnvVars\<close> changes the object it is given depends on which
  object each \<^verbatim>\<open>delete\<close> acts on, so here objects live in a store: a list of
  property lists, an object's address being its index. The parameter \<^verbatim>\<open>env\<close> has
  the declared type \<^verbatim>\<open>Record<string, string | undefined> | undefined\<close>: no
  environment, or the address of one. \<^verbatim>\<open>const cleaned = { ...env }\<close> allocates a new
  object holding a copy of the properties, and every \<^verbatim>\<open>delete cleaned[key]\<close> updates
  the store at the address of \<^verbatim>\<open>cleaned\<close>. The function returns the new store and
  the address of \<^verbatim>\<open>cleaned\<close>.
\<close>

type_synonym heap = "props list"

definition alloc :: "heap \<Rightarrow> props \<Rightarrow> heap \<times> nat" where
  "alloc h ps = (h @ [ps], length h)"

definition delete_at :: "nat \<Rightarrow> string \<Rightarrow> heap \<Rightarrow> heap" where
  "delete_at a k h = h[a := delete_key k (h ! a)]"

definition stripSensitiveEnvVars_heap :: "heap \<Rightarrow> nat \<Rightarrow> nat option \<Rightarrow> heap \<times> nat" where
  "stripSensitiveEnvVars_heap h process_env env =
     (case env of
        None \<Rightarrow>
          (let (h1, cleaned) = alloc h (h ! process_env)
           in (fold (delete_at cleaned) SENSITIVE_ENV_VARS h1, cleaned))
      | Some e \<Rightarrow>
          (let (h1, cleaned) = alloc h (h ! e)
           in (fold (delete_at cleaned) SENSITIVE_ENV_VARS h1, cleaned)))"

section \<open>Vocabulary of the properties\<close>

text \<open>
  The position at which each wrapper declares its parameter \<^verbatim>\<open>options\<close>; it passes
  \<^verbatim>\<open>secureOptions\<close> to the raw operation at the same position. \<open>delegated_options\<close>
  is the options argument of the raw call that results from calling the closure for
  \<open>op\<close> with the arguments \<open>as\<close>.
\<close>

fun options_position :: "wrapped_op \<Rightarrow> nat" where
  "options_position Spawn = 2"
| "options_position Exec = 1"
| "options_position ExecFile = 2"
| "options_position Fork = 2"

definition delegated_options :: "props \<Rightarrow> wrapped_op \<Rightarrow> jsval \<Rightarrow> jsval list \<Rightarrow> jsval" where
  "delegated_options process_env op childProcess as =
     call_args (call_function process_env (JWrapped op childProcess) as) ! options_position op"

text \<open>An environment holds no entry under a key of \<open>SENSITIVE_ENV_VARS\<close>.\<close>

definition no_sensitive_key :: "props \<Rightarrow> bool" where
  "no_sensitive_key ps = (\<forall>k \<in> set SENSITIVE_ENV_VARS. k \<notin> fst ` set ps)"

section \<open>Properties of the value operations\<close>

lemma fold_delete_key: "fold delete_key ks ps = filter (\<lambda>p. fst p \<notin> set ks) ps"
  by (induction ks arbitrary: ps) (auto simp: delete_key_def intro: filter_cong)

lemma map_of_set_prop:
  "map_of (set_prop k v ps) k' = (if k' = k then Some v else map_of ps k')"
  by (induction ps) auto

lemma get_prop_JObj:
  "get_prop (JObj ps) k = (case map_of ps k of None \<Rightarrow> JUndefined | Some x \<Rightarrow> x)"
  by (simp add: get_prop_def)

lemma stripSensitiveEnvVars_filter:
  "stripSensitiveEnvVars process_env env =
     JObj (filter (\<lambda>p. fst p \<notin> set SENSITIVE_ENV_VARS)
            (if truthy env then own_props env else process_env))"
  by (simp add: stripSensitiveEnvVars_def fold_delete_key)

lemma filter_no_sensitive:
  "no_sensitive_key (filter (\<lambda>p. fst p \<notin> set SENSITIVE_ENV_VARS) ps)"
  by (auto simp: no_sensitive_key_def)

lemma filter_clean:
  "no_sensitive_key ps \<Longrightarrow> filter (\<lambda>p. fst p \<notin> set SENSITIVE_ENV_VARS) ps = ps"
  by (induction ps) (auto simp: no_sensitive_key_def)

lemma secureOptions_env:
  "get_prop (secureOptions process_env options) ''env'' =
     stripSensitiveEnvVars process_env (get_prop options ''env'')"
  by (simp add: secureOptions_def get_prop_JObj map_of_set_prop)

text \<open>
  Read by position, as the wrappers declare their parameters, every property of
  \<^verbatim>\<open>options\<close> other than \<^verbatim>\<open>env\<close> is carried over to \<^verbatim>\<open>secureOptions\<close>.
\<close>

lemma secureOptions_keeps_other_options:
  "k \<noteq> ''env'' \<Longrightarrow> get_prop (secureOptions process_env options) k = get_prop options k"
  by (simp add: secureOptions_def get_prop_def map_of_set_prop)

text \<open>
  Each wrapper passes its parameters on in the positions in which it declares them, with
  \<^verbatim>\<open>secureOptions\<close> in the place of \<^verbatim>\<open>options\<close>.
\<close>

lemma wrappers_forward_by_position:
  "call_function process_env (JWrapped Spawn cp) as =
     RawCall (get_prop cp ''spawn'') [arg as 0, arg as 1, secureOptions process_env (arg as 2)]"
  "call_function process_env (JWrapped Exec cp) as =
     RawCall (get_prop cp ''exec'') [arg as 0, secureOptions process_env (arg as 1), arg as 2]"
  "call_function process_env (JWrapped ExecFile cp) as =
     RawCall (get_prop cp ''execFile'')
       [arg as 0, arg as 1, secureOptions process_env (arg as 2), arg as 3]"
  "call_function process_env (JWrapped Fork cp) as =
     RawCall (get_prop cp ''fork'') [arg as 0, arg as 1, secureOptions process_env (arg as 2)]"
  by (simp_all add: spawn_def exec_def execFile_def fork_def)

lemma delegated_options_eq:
  "delegated_options process_env op childProcess as =
     secureOptions process_env (arg as (options_position op))"
  by (cases op) (simp_all add: delegated_options_def spawn_def exec_def execFile_def fork_def)

text \<open>
  A property value is smaller than the value that holds it, or it is one character of a
  string. Hence no member of a facility is a closure over that same facility.
\<close>

lemma own_props_smaller:
  "(k, x) \<in> set (own_props v) \<Longrightarrow> size x < size v \<or> (\<exists>s. x = JStr s)"
proof (cases v)
  case (JObj ps)
  assume "(k, x) \<in> set (own_props v)"
  with JObj have "(k, x) \<in> set ps" by simp
  then have "size x < Suc (size_list (size_prod (\<lambda>_. 0) size) ps)"
    by (induction ps) auto
  with JObj show ?thesis by simp
next
  case (JFun i ps)
  assume "(k, x) \<in> set (own_props v)"
  with JFun have "(k, x) \<in> set ps" by simp
  then have "size x < Suc (size_list (size_prod (\<lambda>_. 0) size) ps)"
    by (induction ps) auto
  with JFun show ?thesis by simp
next
  case (JArr xs)
  assume "(k, x) \<in> set (own_props v)"
  with JArr have "x \<in> set xs" by (auto dest: set_zip_rightD)
  then have "size x < Suc (size_list size xs)"
    by (induction xs) auto
  with JArr show ?thesis by simp
next
  case (JStr s)
  assume "(k, x) \<in> set (own_props v)"
  with JStr show ?thesis by (auto dest!: set_zip_rightD)
qed auto

lemma wrapped_not_member: "get_prop cp k \<noteq> JWrapped op cp"
proof (cases "map_of (own_props cp) k")
  case None
  then show ?thesis by (simp add: get_prop_def)
next
  case (Some x)
  then have "(k, x) \<in> set (own_props cp)" by (rule map_of_SomeD)
  then have "size x < size cp \<or> (\<exists>s. x = JStr s)" by (rule own_props_smaller)
  then have "x \<noteq> JWrapped op cp" by auto
  with Some show ?thesis by (simp add: get_prop_def)
qed

lemma map_of_wrapper:
  "map_of (own_props (createSecureChildProcessWrapper cp)) k =
     (if k = ''fork'' then Some (JWrapped Fork cp)
      else if k = ''execFile'' then Some (JWrapped ExecFile cp)
      else if k = ''exec'' then Some (JWrapped Exec cp)
      else if k = ''spawn'' then Some (JWrapped Spawn cp)
      else map_of (own_props cp) k)"
  by (simp add: createSecureChildProcessWrapper_def map_of_set_prop)

section \<open>Properties of the store operations\<close>

lemma fold_delete_at:
  "c < length h \<Longrightarrow> fold (delete_at c) ks h = h[c := fold delete_key ks (h ! c)]"
  by (induction ks arbitrary: h) (simp_all add: delete_at_def)

lemma strip_heap_eq:
  "stripSensitiveEnvVars_heap h process_env env =
     (h @ [filter (\<lambda>p. fst p \<notin> set SENSITIVE_ENV_VARS)
             (h ! (case env of None \<Rightarrow> process_env | Some e \<Rightarrow> e))],
      length h)"
  by (simp add: stripSensitiveEnvVars_heap_def alloc_def fold_delete_at fold_delete_key
      split: option.split)

section \<open>The sanitizing operations, read by position\<close>

text \<open>
  What holds of the argument that sits where a wrapper declares \<^verbatim>\<open>options\<close>: the
  \<^verbatim>\<open>env\<close> delegated in that position is \<^verbatim>\<open>process.env\<close> without the sensitive
  entries when that argument has no \<^verbatim>\<open>env\<close>, and the mapping found there without the
  sensitive entries otherwise. Nothing is said here of an options object that the caller
  passes in an earlier position.
\<close>

lemma delegated_env_by_position:
  "(get_prop (arg as (options_position op)) ''env'' = JUndefined \<longrightarrow>
      get_prop (delegated_options process_env op childProcess as) ''env'' =
        JObj (filter (\<lambda>p. fst p \<notin> set SENSITIVE_ENV_VARS) process_env))
   \<and> (get_prop (arg as (options_position op)) ''env'' = JObj supplied \<longrightarrow>
      get_prop (delegated_options process_env op childProcess as) ''env'' =
        JObj (filter (\<lambda>p. fst p \<notin> set SENSITIVE_ENV_VARS) supplied))"
  by (simp add: delegated_options_eq secureOptions_env stripSensitiveEnvVars_filter)

lemma delegated_options_by_position_have_env:
  "\<exists>so e. delegated_options process_env op childProcess as = JObj so
      \<and> map_of so ''env'' = Some (JObj e)
      \<and> no_sensitive_key e
      \<and> (get_prop (arg as (options_position op)) ''env'' = JUndefined \<longrightarrow>
           e = filter (\<lambda>p. fst p \<notin> set SENSITIVE_ENV_VARS) process_env)"
  by (simp add: delegated_options_eq secureOptions_def map_of_set_prop
      stripSensitiveEnvVars_filter filter_no_sensitive)

section \<open>Sanitization and the input mapping\<close>

text \<open>
  C9. Sanitizing never changes an object that already exists, neither the mapping it is
  given nor \<^verbatim>\<open>process.env\<close>: the result is a newly allocated object. Its content is what
  the value-level \<open>stripSensitiveEnvVars\<close> computes, and for a mapping without any
  sensitive key that content equals the input.
\<close>

theorem stripSensitiveEnvVars_clean_input_and_no_mutation:
  assumes "process_env < length h" and "e < length h"
  shows "(\<forall>env \<in> {None, Some e}. \<forall>a < length h.
            fst (stripSensitiveEnvVars_heap h process_env env) ! a = h ! a)
     \<and> snd (stripSensitiveEnvVars_heap h process_env (Some e)) = length h
     \<and> JObj (fst (stripSensitiveEnvVars_heap h process_env (Some e)) ! length h)
          = stripSensitiveEnvVars (h ! process_env) (JObj (h ! e))
     \<and> (no_sensitive_key (h ! e) \<longrightarrow>
           fst (stripSensitiveEnvVars_heap h process_env (Some e)) ! length h = h ! e
           \<and> stripSensitiveEnvVars (h ! process_env) (JObj (h ! e)) = JObj (h ! e))"
  using assms
  by (auto simp: strip_heap_eq nth_append stripSensitiveEnvVars_filter filter_clean)

theorem stripSensitiveEnvVars_clean_input_and_no_mutation_witness:
  "(0::nat) < length [ [(''PATH'', JStr ''/usr/bin''), (''ANTHROPIC_API_KEY'', JStr ''sk-host'')],
                      [(''FOO'', JStr ''x'')]]
   \<and> no_sensitive_key [(''FOO'', JStr ''x'')]
   \<and> stripSensitiveEnvVars_heap
        [ [(''PATH'', JStr ''/usr/bin''), (''ANTHROPIC_API_KEY'', JStr ''sk-host'')],
         [(''FOO'', JStr ''x'')]]
        0 (Some 1)
      = ([ [(''PATH'', JStr ''/usr/bin''), (''ANTHROPIC_API_KEY'', JStr ''sk-host'')],
          [(''FOO'', JStr ''x'')],
          [(''FOO'', JStr ''x'')]], 2)"
  using stripSensitiveEnvVars_clean_input_and_no_mutation
      [of 0 "[ [(''PATH'', JStr ''/usr/bin''), (''ANTHROPIC_API_KEY'', JStr ''sk-host'')],
              [(''FOO'', JStr ''x'')]]" 1]
  by (simp add: no_sensitive_key_def SENSITIVE_ENV_VARS_def strip_heap_eq)

section \<open>Admission\<close>

text \<open>
  C3. When the allow list that applies to a name is an explicit set that does not hold
  the name, the resolver throws \<^verbatim>\<open>ExecutionError\<close> around a
  \<^verbatim>\<open>DisallowedModuleError\<close> carrying exactly that name, and \<^verbatim>\<open>require\<close> is not called.
\<close>

theorem resolve_denied_throws_without_load:
  assumes "(if isBuiltin request then allowedBuiltInModules opts
            else allowedExternalModules opts) = Names s"
    and "request \<notin> s"
  shows "createRequireResolver isBuiltin require opts request =
           \<lparr>loads = [], result = Inl (ExecutionError (DisallowedModuleError request))\<rparr>"
  using assms
  by (auto simp: createRequireResolver_def isAllowed_def checkIsAllowed_def split: if_splits)

theorem resolve_denied_throws_without_load_witness:
  "createRequireResolver (\<lambda>n. n \<in> {''fs'', ''net'', ''child_process''}) (\<lambda>n. Inr (JObj []))
      \<lparr>allowedBuiltInModules = Names {''fs''}, allowedExternalModules = Names {''lodash''}\<rparr>
      ''net''
    = \<lparr>loads = [], result = Inl (ExecutionError (DisallowedModuleError ''net''))\<rparr>"
  using resolve_denied_throws_without_load
      [of "\<lambda>n. n \<in> {''fs'', ''net'', ''child_process''}" "''net''"
        "\<lparr>allowedBuiltInModules = Names {''fs''}, allowedExternalModules = Names {''lodash''}\<rparr>"
        "{''fs''}" "\<lambda>n. Inr (JObj [])"]
  by simp



text \<open>
  C7. When the allow list that applies to a name is the wildcard, the name is admitted
  whatever the other allow list holds: \<^verbatim>\<open>require\<close> is called with it, and the resolver
  returns what was loaded (filtered for \<^verbatim>\<open>child_process\<close>) or throws what the load
  threw.
\<close>

theorem wildcard_admits_every_name:
  assumes "(if isBuiltin request then allowedBuiltInModules opts
            else allowedExternalModules opts) = Wildcard"
  shows "isAllowed isBuiltin opts request
     \<and> loads (createRequireResolver isBuiltin require opts request) = [request]
     \<and> result (createRequireResolver isBuiltin require opts request) =
         (case require request of
            Inl thrown \<Rightarrow> Inl thrown
          | Inr module \<Rightarrow>
              Inr (if request = ''child_process''
                   then createSecureChildProcessWrapper module else module))"
  using assms
  by (auto simp: createRequireResolver_def isAllowed_def checkIsAllowed_def
      split: if_splits sum.splits)

theorem wildcard_admits_every_name_witness:
  "isAllowed (\<lambda>n. n = ''fs'')
      \<lparr>allowedBuiltInModules = Names {}, allowedExternalModules = Wildcard\<rparr> ''lodash''
   \<and> createRequireResolver (\<lambda>n. n = ''fs'') (\<lambda>n. Inr (JObj [(''chunk'', JFun 0 [])]))
        \<lparr>allowedBuiltInModules = Names {}, allowedExternalModules = Wildcard\<rparr> ''lodash''
      = \<lparr>loads = [''lodash''], result = Inr (JObj [(''chunk'', JFun 0 [])])\<rparr>"
  using wildcard_admits_every_name
      [of "\<lambda>n. n = ''fs''" "''lodash''"
        "\<lparr>allowedBuiltInModules = Names {}, allowedExternalModules = Wildcard\<rparr>"
        "\<lambda>n. Inr (JObj [(''chunk'', JFun 0 [])])"]
  by (simp add: createRequireResolver_def)

text \<open>
  C8. For an admitted name, an error thrown by \<^verbatim>\<open>require\<close> is the error the resolver
  throws, unchanged. Any error the resolver throws is either that, or the
  \<^verbatim>\<open>ExecutionError\<close> around \<^verbatim>\<open>DisallowedModuleError\<close> of a name that was not admitted.
\<close>

theorem load_failure_propagates_unchanged:
  "(isAllowed isBuiltin opts request \<longrightarrow>
      (\<forall>thrown. require request = Inl thrown \<longrightarrow>
         createRequireResolver isBuiltin require opts request =
           \<lparr>loads = [request], result = Inl thrown\<rparr>))
   \<and> (\<forall>e. result (createRequireResolver isBuiltin require opts request) = Inl e \<longrightarrow>
         (\<not> isAllowed isBuiltin opts request
            \<and> e = ExecutionError (DisallowedModuleError request))
         \<or> (isAllowed isBuiltin opts request \<and> require request = Inl e))"
  by (auto simp: createRequireResolver_def split: sum.splits if_splits)

theorem load_failure_propagates_unchanged_witness:
  "createRequireResolver (\<lambda>n. False) (\<lambda>n. Inl (HostError ''MODULE_NOT_FOUND''))
      \<lparr>allowedBuiltInModules = Names {}, allowedExternalModules = Names {''lodash''}\<rparr>
      ''lodash''
    = \<lparr>loads = [''lodash''], result = Inl (HostError ''MODULE_NOT_FOUND'')\<rparr>"
  using load_failure_propagates_unchanged
      [of "\<lambda>n. False"
        "\<lparr>allowedBuiltInModules = Names {}, allowedExternalModules = Names {''lodash''}\<rparr>"
        "''lodash''" "\<lambda>n. Inl (HostError ''MODULE_NOT_FOUND'')"]
  by (simp add: isAllowed_def checkIsAllowed_def)

section \<open>The handle returned for child_process\<close>

text \<open>
  C4. For an admitted name whose load succeeds: if the name is exactly
  \<^verbatim>\<open>child_process\<close>, the returned handle has under \<^verbatim>\<open>spawn\<close>, \<^verbatim>\<open>exec\<close>,
  \<^verbatim>\<open>execFile\<close> and \<^verbatim>\<open>fork\<close> the closures of the filter, each different from the
  member of the loaded facility under that name, and under every other name exactly what
  the loaded facility has there (the same value, or nothing); for every other name the
  loaded facility itself is returned.
\<close>

theorem resolve_child_process_handle_members:
  assumes "isAllowed isBuiltin opts request" and "require request = Inr module"
  shows "(request = ''child_process'' \<longrightarrow>
            (\<exists>handle. result (createRequireResolver isBuiltin require opts request) = Inr handle
               \<and> get_prop handle ''spawn'' = JWrapped Spawn module
               \<and> get_prop handle ''exec'' = JWrapped Exec module
               \<and> get_prop handle ''execFile'' = JWrapped ExecFile module
               \<and> get_prop handle ''fork'' = JWrapped Fork module
               \<and> (\<forall>k \<in> {''spawn'', ''exec'', ''execFile'', ''fork''}.
                     get_prop handle k \<noteq> get_prop module k)
               \<and> (\<forall>k. k \<notin> {''spawn'', ''exec'', ''execFile'', ''fork''} \<longrightarrow>
                     map_of (own_props handle) k = map_of (own_props module) k)))
       \<and> (request \<noteq> ''child_process'' \<longrightarrow>
            result (createRequireResolver isBuiltin require opts request) = Inr module)"
proof -
  let ?h = "createSecureChildProcessWrapper module"
  have res: "result (createRequireResolver isBuiltin require opts request) =
      Inr (if request = ''child_process'' then ?h else module)"
    using assms by (simp add: createRequireResolver_def)
  have ops: "get_prop ?h ''spawn'' = JWrapped Spawn module"
    "get_prop ?h ''exec'' = JWrapped Exec module"
    "get_prop ?h ''execFile'' = JWrapped ExecFile module"
    "get_prop ?h ''fork'' = JWrapped Fork module"
    by (simp_all add: get_prop_def map_of_wrapper)
  have diff: "\<forall>k \<in> {''spawn'', ''exec'', ''execFile'', ''fork''}.
      get_prop ?h k \<noteq> get_prop module k"
    using wrapped_not_member [of module] by (simp add: ops) metis
  have rest: "\<forall>k. k \<notin> {''spawn'', ''exec'', ''execFile'', ''fork''} \<longrightarrow>
      map_of (own_props ?h) k = map_of (own_props module) k"
    by (simp add: map_of_wrapper)
  show ?thesis
  proof (cases "request = ''child_process''")
    case True
    with res have "result (createRequireResolver isBuiltin require opts request) = Inr ?h"
      by simp
    with ops diff rest True show ?thesis by blast
  next
    case False
    with res show ?thesis by simp
  qed
qed

theorem resolve_child_process_handle_members_witness:
  "(let child_process = JObj [(''spawn'', JFun 0 []), (''execSync'', JFun 5 [])];
        require = (\<lambda>n. Inr child_process);
        isBuiltin = (\<lambda>n. n = ''child_process'' \<or> n = ''node:child_process'');
        opts = \<lparr>allowedBuiltInModules = Wildcard, allowedExternalModules = Names {}\<rparr>
    in isAllowed isBuiltin opts ''child_process''
     \<and> result (createRequireResolver isBuiltin require opts ''child_process'') =
         Inr (JObj [(''spawn'', JWrapped Spawn child_process), (''execSync'', JFun 5 []),
                    (''exec'', JWrapped Exec child_process),
                    (''execFile'', JWrapped ExecFile child_process),
                    (''fork'', JWrapped Fork child_process)])
     \<and> result (createRequireResolver isBuiltin require opts ''node:child_process'') =
         Inr child_process)"
  using resolve_child_process_handle_members
      [of "\<lambda>n. n = ''child_process'' \<or> n = ''node:child_process''"
        "\<lparr>allowedBuiltInModules = Wildcard, allowedExternalModules = Names {}\<rparr>"
        "''child_process''"
        "\<lambda>n. Inr (JObj [(''spawn'', JFun 0 []), (''execSync'', JFun 5 [])])"
        "JObj [(''spawn'', JFun 0 []), (''execSync'', JFun 5 [])]"]
    resolve_child_process_handle_members
      [of "\<lambda>n. n = ''child_process'' \<or> n = ''node:child_process''"
        "\<lparr>allowedBuiltInModules = Wildcard, allowedExternalModules = Names {}\<rparr>"
        "''node:child_process''"
        "\<lambda>n. Inr (JObj [(''spawn'', JFun 0 []), (''execSync'', JFun 5 [])])"
        "JObj [(''spawn'', JFun 0 []), (''execSync'', JFun 5 [])]"]
  by (simp add: createRequireResolver_def isAllowed_def checkIsAllowed_def
      createSecureChildProcessWrapper_def)

section \<open>Where the filter does not reach\<close>

text \<open>
  C1. The filter replaces four members and forwards every other member of the facility
  as it is. Node's \<^verbatim>\<open>child_process\<close> also exports \<^verbatim>\<open>spawnSync\<close>, \<^verbatim>\<open>execSync\<close> and
  \<^verbatim>\<open>execFileSync\<close>, which start a subprocess too. On a facility with these members,
  with \<^verbatim>\<open>ANTHROPIC_API_KEY\<close> set in \<^verbatim>\<open>process.env\<close>, the member \<^verbatim>\<open>execSync\<close> of the
  handle returned for \<^verbatim>\<open>child_process\<close> is the raw function. Calling it reaches the raw
  operation with the caller's arguments as given: no environment is substituted, and an
  environment option that holds a sensitive key is passed on with it. The sibling
  \<^verbatim>\<open>exec\<close> of the same handle delegates the sanitized environment.
\<close>

theorem execSync_member_reaches_raw_operation_unfiltered:
  "(let process_env = [(''PATH'', JStr ''/usr/bin''), (''ANTHROPIC_API_KEY'', JStr ''sk-host'')];
        child_process = JObj [(''spawn'', JFun 0 []), (''exec'', JFun 1 []),
          (''execFile'', JFun 2 []), (''fork'', JFun 3 []), (''spawnSync'', JFun 4 []),
          (''execSync'', JFun 5 []), (''execFileSync'', JFun 6 [])];
        handle = createSecureChildProcessWrapper child_process;
        options = JObj [(''env'', JObj [(''ANTHROPIC_API_KEY'', JStr ''k'')])]
    in result (createRequireResolver (\<lambda>n. n = ''child_process'') (\<lambda>n. Inr child_process)
                \<lparr>allowedBuiltInModules = Wildcard, allowedExternalModules = Names {}\<rparr>
                ''child_process'') = Inr handle
     \<and> get_prop handle ''execSync'' = JFun 5 []
     \<and> call_member process_env handle ''execSync'' [JStr ''env'']
          = RawCall (JFun 5 []) [JStr ''env'']
     \<and> call_member process_env handle ''execSync'' [JStr ''env'', options]
          = RawCall (JFun 5 []) [JStr ''env'', options]
     \<and> call_member process_env handle ''exec'' [JStr ''env'', options]
          = RawCall (JFun 1 []) [JStr ''env'', JObj [(''env'', JObj [])], JUndefined])"
  by (simp add: createRequireResolver_def isAllowed_def checkIsAllowed_def
      createSecureChildProcessWrapper_def call_member_def get_prop_def exec_def
      secureOptions_def stripSensitiveEnvVars_def SENSITIVE_ENV_VARS_def delete_key_def arg_def)

text \<open>
  C6. The wrappers bind their parameters by position. Node's \<^verbatim>\<open>exec\<close> takes
  \<^verbatim>\<open>(command[, options][, callback])\<close>, and the wrapper declares both \<^verbatim>\<open>options\<close> and
  \<^verbatim>\<open>callback\<close> optional. Called as \<^verbatim>\<open>exec('ls', callback)\<close>, the wrapper takes the
  callback for its options, spreads it into an object, and passes \<^verbatim>\<open>undefined\<close> as the
  callback: the function the caller gave is not among the arguments of the raw call.
  In the same way \<^verbatim>\<open>spawn('ls', { cwd: '/tmp' })\<close> hands the caller's options to the
  raw operation as its second argument, and the delegated options hold \<^verbatim>\<open>env\<close> alone.
\<close>

theorem exec_without_options_drops_callback:
  "(let process_env = [(''PATH'', JStr ''/usr/bin''), (''ANTHROPIC_API_KEY'', JStr ''sk-host'')];
        child_process = JObj [(''spawn'', JFun 0 []), (''exec'', JFun 1 []),
          (''execFile'', JFun 2 []), (''fork'', JFun 3 [])];
        handle = createSecureChildProcessWrapper child_process;
        callback = JFun 9 []
    in call_member process_env handle ''exec'' [JStr ''ls'', callback]
         = RawCall (JFun 1 [])
             [JStr ''ls'', JObj [(''env'', JObj [(''PATH'', JStr ''/usr/bin'')])], JUndefined]
     \<and> callback \<notin> set (call_args (call_member process_env handle ''exec''
                                      [JStr ''ls'', callback]))
     \<and> call_member process_env handle ''spawn'' [JStr ''ls'', JObj [(''cwd'', JStr ''/tmp'')]]
         = RawCall (JFun 0 [])
             [JStr ''ls'', JObj [(''cwd'', JStr ''/tmp'')],
              JObj [(''env'', JObj [(''PATH'', JStr ''/usr/bin'')])]])"
  by (simp add: createSecureChildProcessWrapper_def call_member_def get_prop_def exec_def
      spawn_def secureOptions_def stripSensitiveEnvVars_def SENSITIVE_ENV_VARS_def
      delete_key_def arg_def)

text \<open>
  C2. Node's \<^verbatim>\<open>spawn\<close> takes \<^verbatim>\<open>(command[, args][, options])\<close>; the wrapper declares
  \<^verbatim>\<open>args\<close> optional too, but reads the environment only from its third parameter.
  Called as \<^verbatim>\<open>spawn('env', { env: { ANTHROPIC_API_KEY: 'k', FOO: 'x' } })\<close>, an
  invocation with an explicit environment, the wrapper takes the caller's options for
  \<^verbatim>\<open>args\<close> and finds no \<^verbatim>\<open>options\<close>: the environment it builds is the sanitized
  \<^verbatim>\<open>process.env\<close>, in which \<^verbatim>\<open>FOO\<close> is lost, and not the supplied mapping without the
  three keys; and the supplied mapping reaches the raw operation as it is, sensitive key
  included, in the second argument.
\<close>

theorem spawn_with_options_second_ignores_supplied_env:
  "(let process_env = [(''PATH'', JStr ''/usr/bin''), (''ANTHROPIC_API_KEY'', JStr ''sk-host'')];
        child_process = JObj [(''spawn'', JFun 0 []), (''exec'', JFun 1 []),
          (''execFile'', JFun 2 []), (''fork'', JFun 3 [])];
        handle = createSecureChildProcessWrapper child_process;
        supplied = JObj [(''ANTHROPIC_API_KEY'', JStr ''k''), (''FOO'', JStr ''x'')];
        options = JObj [(''env'', supplied)]
    in call_member process_env handle ''spawn'' [JStr ''env'', options]
         = RawCall (JFun 0 [])
             [JStr ''env'', JObj [(''env'', supplied)],
              JObj [(''env'', JObj [(''PATH'', JStr ''/usr/bin'')])]]
     \<and> get_prop (call_args (call_member process_env handle ''spawn'' [JStr ''env'', options]) ! 2)
           ''env'' \<noteq> JObj [(''FOO'', JStr ''x'')]
     \<and> get_prop (call_args (call_member process_env handle ''spawn'' [JStr ''env'', options]) ! 1)
           ''env'' = supplied
     \<and> get_prop supplied ''ANTHROPIC_API_KEY'' = JStr ''k'')"
  by (simp add: createSecureChildProcessWrapper_def call_member_def get_prop_def spawn_def
      secureOptions_def stripSensitiveEnvVars_def SENSITIVE_ENV_VARS_def delete_key_def
      arg_def)

text \<open>
  C10. Called as \<^verbatim>\<open>fork('worker.js', { cwd: '/tmp' })\<close>, the wrapper passes the caller's
  options object, which has no \<^verbatim>\<open>env\<close> entry, as the second argument of the raw
  operation and its own \<^verbatim>\<open>secureOptions\<close> as the third. Node's \<^verbatim>\<open>fork\<close> and
  \<^verbatim>\<open>spawn\<close> take their options from the second argument when it is an object that is
  not an array, so the options that take effect carry no explicit environment and the
  subprocess inherits that of the parent. Called as \<^verbatim>\<open>execFile('ls', callback)\<close>, the
  wrapper likewise passes the callback second and \<^verbatim>\<open>secureOptions\<close> third.
\<close>

theorem fork_with_options_second_delegates_options_without_env:
  "(let process_env = [(''PATH'', JStr ''/usr/bin''), (''ANTHROPIC_API_KEY'', JStr ''sk-host'')];
        child_process = JObj [(''spawn'', JFun 0 []), (''exec'', JFun 1 []),
          (''execFile'', JFun 2 []), (''fork'', JFun 3 [])];
        handle = createSecureChildProcessWrapper child_process;
        options = JObj [(''cwd'', JStr ''/tmp'')];
        callback = JFun 9 []
    in call_member process_env handle ''fork'' [JStr ''worker.js'', options]
         = RawCall (JFun 3 [])
             [JStr ''worker.js'', JObj [(''cwd'', JStr ''/tmp'')],
              JObj [(''env'', JObj [(''PATH'', JStr ''/usr/bin'')])]]
     \<and> map_of (own_props (call_args (call_member process_env handle ''fork''
                                       [JStr ''worker.js'', options]) ! 1)) ''env'' = None
     \<and> call_member process_env handle ''execFile'' [JStr ''ls'', callback]
         = RawCall (JFun 2 [])
             [JStr ''ls'', callback, JObj [(''env'', JObj [(''PATH'', JStr ''/usr/bin'')])],
              JUndefined])"
  by (simp add: createSecureChildProcessWrapper_def call_member_def get_prop_def fork_def
      execFile_def secureOptions_def stripSensitiveEnvVars_def SENSITIVE_ENV_VARS_def
      delete_key_def arg_def)

end
